theory Spec2Isabelle
  imports Main
begin

section \<open>JavaScript values\<close>

text \<open>
  The marker configuration reaches \<open>UnorderedList\<close> through the theme layer and is
  only cast to \<open>string | string[] | undefined\<close>, never checked, so the component
  inspects it at run time (\<open>typeof\<close>, \<open>Array.isArray\<close>, \<open>?.\<close>, \<open>??\<close>). The values
  it can meet are modelled as a tagged union. A number is an integer; an object is a plain
  object (not a React element), an association list from property names to values, read
  at the first binding of a name.
\<close>

datatype jsval =
    JUndefined
  | JNull
  | JBoolean bool
  | JNumber int
  | JString string
  | JArray "jsval list"
  | JObject "(string \<times> jsval) list"

text \<open>What a render can throw: a \<open>TypeError\<close> of the language, and React's error for a
  value it cannot render as a child (\<open>Objects are not valid as a React child\<close>).\<close>

datatype error = TypeError | InvalidChild

text \<open>\<open>v.k\<close> for a property name \<open>k\<close> that no built-in prototype defines: reading a
  property of \<open>undefined\<close> or \<open>null\<close> throws, a primitive or an array has no such
  property.\<close>

fun js_get :: "jsval \<Rightarrow> string \<Rightarrow> error + jsval" where
  "js_get JUndefined k = Inl TypeError"
| "js_get JNull k = Inl TypeError"
| "js_get (JObject kvs) k = Inr (case map_of kvs k of None \<Rightarrow> JUndefined | Some v \<Rightarrow> v)"
| "js_get v k = Inr JUndefined"

text \<open>\<open>v?.k\<close>: optional chaining yields \<open>undefined\<close> on a nullish receiver.\<close>

definition js_optional_get :: "jsval \<Rightarrow> string \<Rightarrow> error + jsval" where
  "js_optional_get v k = (if v = JUndefined \<or> v = JNull then Inr JUndefined else js_get v k)"

text \<open>\<open>a ?? b\<close>: only \<open>undefined\<close> and \<open>null\<close> give way to the right operand.\<close>

definition js_coalesce :: "jsval \<Rightarrow> jsval \<Rightarrow> jsval" where
  "js_coalesce a b = (if a = JUndefined \<or> a = JNull then b else a)"

text \<open>\<open>xs[i]\<close> on an array with elements \<open>xs\<close> and an integral index: out of range
  (also a negative index) reads \<open>undefined\<close>.\<close>

definition js_index :: "jsval list \<Rightarrow> int \<Rightarrow> jsval" where
  "js_index xs i = (if 0 \<le> i \<and> i < int (length xs) then xs ! nat i else JUndefined)"

text \<open>\<open>xs.at(i)\<close>: a negative index counts from the end.\<close>

definition js_at :: "jsval list \<Rightarrow> int \<Rightarrow> jsval" where
  "js_at xs i =
     (let len = int (length xs); k = (if 0 \<le> i then i else len + i)
      in if k < 0 \<or> len \<le> k then JUndefined else xs ! nat k)"

text \<open>
  \<open>d + 1\<close> on a number that holds an integer \<open>d\<close> with \<open>-2^53 \<le> d \<le> 2^53\<close>. Numbers
  are IEEE doubles: the sum is exact below \<open>2^53\<close>, and \<open>2^53 + 1\<close> is not a double and
  rounds back to \<open>2^53\<close>. Outside this range the definition says nothing about the
  code, and every statement about depths below keeps the depth inside it.
\<close>

definition js_increment :: "int \<Rightarrow> int" where
  "js_increment d = (if d < 2 ^ 53 then d + 1 else d)"

text \<open>
  What React accepts as a child of a host element such as \<open>Text\<close>: strings and numbers
  are shown, booleans, \<open>undefined\<close> and \<open>null\<close> show nothing, an array is rendered
  element by element, and a plain object is refused with an error.
\<close>

fun renderable :: "jsval \<Rightarrow> bool" where
  "renderable (JObject kvs) = False"
| "renderable (JArray xs) = list_all renderable xs"
| "renderable v = True"

section \<open>Render trees\<close>

text \<open>
  The content handed to the components: host elements (\<open>Text\<close>, \<open>Box\<close>) and the two
  components of this package, each with its children.

  A list container is stateful: its second \<open>useMemo\<close> has the dependencies
  \<open>[config, depth]\<close> and not the props its body reads, so on a re-render with the same
  \<open>config\<close> and the same depth the component keeps the value it computed in an earlier
  render, from the children of that render. A list element therefore carries the state of
  its instance on entry to the render: \<open>None\<close> when the memo is computed in this render
  (the first render, or \<open>config\<close> or the depth changed), and \<open>Some props\<close> when the memo
  holds the value computed, with this \<open>config\<close> and this depth, from the children \<open>props\<close>
  of an earlier render.
\<close>

datatype element =
    Text string
  | Box "element list"
  | UnorderedListElem "element list option" "element list"
  | UnorderedListItemElem "element list"

section \<open>Contexts\<close>

text \<open>The values the two contexts carry. The depth is a JavaScript number that starts at
  the context's default \<open>0\<close> and is only ever incremented by one; it is modelled as an
  integer, which also covers a depth given by a provider of the integrator's own.\<close>

record UnorderedListContextProps =
  depth :: int

record UnorderedListItemContextProps =
  marker :: jsval

text \<open>The default values of the two contexts (\<open>createContext\<close>). The default marker is
  \<open>figures.line\<close>, a constant of the \<open>figures\<close> package; it is a parameter here.\<close>

definition UnorderedListContext :: UnorderedListContextProps where
  "UnorderedListContext = \<lparr>depth = 0\<rparr>"

definition UnorderedListItemContext :: "string \<Rightarrow> UnorderedListItemContextProps" where
  "UnorderedListItemContext defaultMarker = \<lparr>marker = JString defaultMarker\<rparr>"

section \<open>The list container\<close>

text \<open>The \<open>config\<close> the theme hook returns: a function of the component's props (its
  children) or a plain value. The theme's function is taken to return normally.\<close>

datatype config =
    ConfigFunction "element list \<Rightarrow> jsval"
  | ConfigValue jsval

definition resolvedConfig :: "config \<Rightarrow> element list \<Rightarrow> jsval" where
  "resolvedConfig config props =
     (case config of ConfigFunction f \<Rightarrow> f props | ConfigValue v \<Rightarrow> v)"

text \<open>The body of the first \<open>useMemo\<close>, a function of its dependency \<open>[depth]\<close> alone.\<close>

definition listContext :: "int \<Rightarrow> UnorderedListContextProps" where
  "listContext d = \<lparr>depth = js_increment d\<rparr>"

text \<open>The body of the second \<open>useMemo\<close>: the marker for the items of a list that read
  depth \<open>d\<close>. The branches are, in order, \<open>typeof marker === "string"\<close>,
  \<open>Array.isArray(marker)\<close> and the final return.\<close>

definition listItemContext ::
  "string \<Rightarrow> config \<Rightarrow> element list \<Rightarrow> int \<Rightarrow> error + UnorderedListItemContextProps" where
  "listItemContext defaultMarker config props d =
     (case js_optional_get (resolvedConfig config props) ''marker'' of
        Inl e \<Rightarrow> Inl e
      | Inr m \<Rightarrow>
         (case m of
            JString s \<Rightarrow> Inr \<lparr>marker = JString s\<rparr>
          | JArray xs \<Rightarrow>
              Inr \<lparr>marker =
                js_coalesce (js_coalesce (js_index xs d) (js_at xs (- 1))) (JString defaultMarker)\<rparr>
          | _ \<Rightarrow> Inr \<lparr>marker = JString defaultMarker\<rparr>))"

text \<open>The props the value of the second \<open>useMemo\<close> was computed from: those of this
  render when the memo is computed now, those of the earlier render otherwise.\<close>

definition memo_props :: "element list option \<Rightarrow> element list \<Rightarrow> element list" where
  "memo_props memo children = (case memo of None \<Rightarrow> children | Some props \<Rightarrow> props)"

text \<open>\<open>UnorderedList\<close>: reads the ambient depth, and provides the incremented depth and
  the resolved marker to its children.\<close>

definition UnorderedList ::
  "string \<Rightarrow> config \<Rightarrow> UnorderedListContextProps \<Rightarrow> element list option \<Rightarrow> element list
     \<Rightarrow> error + (UnorderedListContextProps \<times> UnorderedListItemContextProps)" where
  "UnorderedList defaultMarker config ctx memo children =
     (let d = depth ctx in
      case listItemContext defaultMarker config (memo_props memo children) d of
        Inl e \<Rightarrow> Inl e
      | Inr ic \<Rightarrow> Inr (listContext d, ic))"

text \<open>\<open>UnorderedListItem\<close>: reads the marker from the item context and returns it as the
  child of a \<open>Text\<close>, before its own children; a marker React cannot render as a child
  fails the render.\<close>

definition UnorderedListItem :: "UnorderedListItemContextProps \<Rightarrow> error + jsval" where
  "UnorderedListItem ctx =
     (let m = marker ctx in if renderable m then Inr m else Inl InvalidChild)"

section \<open>Rendering\<close>

text \<open>A list of results, stopped at the first failure: a component that throws fails
  the render of its parent.\<close>

fun sequence :: "(error + 'a) list \<Rightarrow> error + 'a list" where
  "sequence [] = Inr []"
| "sequence (x # xs) =
     (case x of
        Inl e \<Rightarrow> Inl e
      | Inr v \<Rightarrow> (case sequence xs of Inl e \<Rightarrow> Inl e | Inr vs \<Rightarrow> Inr (v # vs)))"

text \<open>
  The rendered tree keeps, for every component instance, what its hooks read and what it
  provided: a list records the depth \<open>useContext(UnorderedListContext)\<close> returned and
  the two values it gave to its providers; an item records the marker
  \<open>useContext(UnorderedListItemContext)\<close> returned, which it shows in its \<open>Text\<close>.
\<close>

datatype fiber =
    TextFiber string
  | BoxFiber "fiber list"
  | ListFiber int UnorderedListContextProps UnorderedListItemContextProps "fiber list"
  | ItemFiber jsval "fiber list"

text \<open>
  Rendering under the context values in scope: \<open>lc\<close> and \<open>ic\<close> are what
  \<open>useContext\<close> returns at this place, the value of the nearest enclosing provider or
  the context's default. Only \<open>UnorderedList\<close> provides new values, and only to its own
  subtree. One theme configuration is in scope for the whole tree. The result is an error
  when a component throws, as a render without an error boundary does.
\<close>

fun render ::
  "string \<Rightarrow> config \<Rightarrow> UnorderedListContextProps \<Rightarrow> UnorderedListItemContextProps
     \<Rightarrow> element \<Rightarrow> error + fiber" where
  "render dm cfg lc ic (Text s) = Inr (TextFiber s)"
| "render dm cfg lc ic (Box es) =
     (case sequence (map (render dm cfg lc ic) es) of
        Inl e \<Rightarrow> Inl e
      | Inr fs \<Rightarrow> Inr (BoxFiber fs))"
| "render dm cfg lc ic (UnorderedListElem memo es) =
     (case UnorderedList dm cfg lc memo es of
        Inl e \<Rightarrow> Inl e
      | Inr (lc', ic') \<Rightarrow>
         (case sequence (map (render dm cfg lc' ic') es) of
            Inl e \<Rightarrow> Inl e
          | Inr fs \<Rightarrow> Inr (ListFiber (depth lc) lc' ic' fs)))"
| "render dm cfg lc ic (UnorderedListItemElem es) =
     (case UnorderedListItem ic of
        Inl e \<Rightarrow> Inl e
      | Inr m \<Rightarrow>
         (case sequence (map (render dm cfg lc ic) es) of
            Inl e \<Rightarrow> Inl e
          | Inr fs \<Rightarrow> Inr (ItemFiber m fs)))"

section \<open>Positions in a tree\<close>

text \<open>A position is the list of child indices leading to it from the root.\<close>

fun children :: "element \<Rightarrow> element list" where
  "children (Text s) = []"
| "children (Box es) = es"
| "children (UnorderedListElem memo es) = es"
| "children (UnorderedListItemElem es) = es"

fun subtree_at :: "element \<Rightarrow> nat list \<Rightarrow> element option" where
  "subtree_at e [] = Some e"
| "subtree_at e (i # p) =
     (if i < length (children e) then subtree_at (children e ! i) p else None)"

fun is_list :: "element \<Rightarrow> bool" where
  "is_list (UnorderedListElem memo es) = True"
| "is_list e = False"

text \<open>The nesting level of a position: how many list containers lie strictly above it.\<close>

fun lists_above :: "element \<Rightarrow> nat list \<Rightarrow> nat" where
  "lists_above e [] = 0"
| "lists_above e (i # p) =
     (if i < length (children e)
      then (if is_list e then 1 else 0) + lists_above (children e ! i) p
      else 0)"

text \<open>The position of the nearest list container strictly above a position.\<close>

fun enclosing_list :: "element \<Rightarrow> nat list \<Rightarrow> nat list option" where
  "enclosing_list e [] = None"
| "enclosing_list e (i # p) =
     (if i < length (children e)
      then (case enclosing_list (children e ! i) p of
              Some q \<Rightarrow> Some (i # q)
            | None \<Rightarrow> if is_list e then Some [] else None)
      else None)"

fun fiber_children :: "fiber \<Rightarrow> fiber list" where
  "fiber_children (TextFiber s) = []"
| "fiber_children (BoxFiber fs) = fs"
| "fiber_children (ListFiber d lc ic fs) = fs"
| "fiber_children (ItemFiber m fs) = fs"

fun fiber_at :: "fiber \<Rightarrow> nat list \<Rightarrow> fiber option" where
  "fiber_at f [] = Some f"
| "fiber_at f (i # p) =
     (if i < length (fiber_children f) then fiber_at (fiber_children f ! i) p else None)"

text \<open>What the component instance at a position observed: the depth a list read, the
  marker a list resolved and provided, and the marker an item read.\<close>

definition observed_depth :: "fiber \<Rightarrow> nat list \<Rightarrow> int option" where
  "observed_depth f p =
     (case fiber_at f p of Some (ListFiber d lc ic fs) \<Rightarrow> Some d | _ \<Rightarrow> None)"

definition provided_depth :: "fiber \<Rightarrow> nat list \<Rightarrow> int option" where
  "provided_depth f p =
     (case fiber_at f p of Some (ListFiber d lc ic fs) \<Rightarrow> Some (depth lc) | _ \<Rightarrow> None)"

definition provided_marker :: "fiber \<Rightarrow> nat list \<Rightarrow> jsval option" where
  "provided_marker f p =
     (case fiber_at f p of Some (ListFiber d lc ic fs) \<Rightarrow> Some (marker ic) | _ \<Rightarrow> None)"

definition observed_marker :: "fiber \<Rightarrow> nat list \<Rightarrow> jsval option" where
  "observed_marker f p =
     (case fiber_at f p of Some (ItemFiber m fs) \<Rightarrow> Some m | _ \<Rightarrow> None)"

section \<open>Shapes of a marker configuration\<close>

fun is_string :: "jsval \<Rightarrow> bool" where
  "is_string (JString s) = True"
| "is_string v = False"

fun is_array :: "jsval \<Rightarrow> bool" where
  "is_array (JArray xs) = True"
| "is_array v = False"

text \<open>The shapes the theme layer accepts for \<open>marker\<close>: a single string, or a sequence of
  strings.\<close>

fun accepted_shape :: "jsval \<Rightarrow> bool" where
  "accepted_shape (JString s) = True"
| "accepted_shape (JArray xs) = list_all is_string xs"
| "accepted_shape v = False"

text \<open>A configuration whose array elements, if it is an array, are strings or holes
  (\<open>undefined\<close>, \<open>null\<close>).\<close>

fun strings_or_holes :: "jsval \<Rightarrow> bool" where
  "strings_or_holes (JArray xs) = list_all (\<lambda>x. is_string x \<or> x = JUndefined \<or> x = JNull) xs"
| "strings_or_holes v = True"

text \<open>An array that holds \<open>undefined\<close> or \<open>null\<close> both at the depth index and at its
  last position: the two places resolution reads. Any other value has no such places.\<close>

fun no_selected_element :: "jsval \<Rightarrow> int \<Rightarrow> bool" where
  "no_selected_element (JArray xs) d =
     ((js_index xs d = JUndefined \<or> js_index xs d = JNull)
      \<and> (js_at xs (- 1) = JUndefined \<or> js_at xs (- 1) = JNull))"
| "no_selected_element v d = True"

text \<open>A theme whose \<open>marker\<close>, for whatever props, is of the declared type
  \<open>string | string[]\<close> or absent.\<close>

abbreviation typed_theme :: "config \<Rightarrow> bool" where
  "typed_theme cfg \<equiv>
     (\<forall>props. \<exists>c. js_optional_get (resolvedConfig cfg props) ''marker'' = Inr c
                 \<and> strings_or_holes c)"

section \<open>An example tree\<close>

text \<open>
  A list of two items; the first item holds a nested list, whose item holds a list again:
  \<^verbatim>\<open>
  <UnorderedList>                          []
    <UnorderedList.Item>                   [0]
      a
      <UnorderedList>                      [0, 1]
        <UnorderedList.Item>               [0, 1, 0]
          b
          <UnorderedList>                  [0, 1, 0, 1]
            <UnorderedList.Item>c</...>    [0, 1, 0, 1, 0]
          </UnorderedList>
        </UnorderedList.Item>
      </UnorderedList>
    </UnorderedList.Item>
    <UnorderedList.Item>d</...>            [1]
  </UnorderedList>
  \<close>
  Every list computes its memo in this render. The theme configures two markers,
  \<open>["*", "o"]\<close>, through a \<open>config\<close> function. A second theme reads the props: its marker
  is \<open>"+"\<close> for a list without children and \<open>"*"\<close> otherwise.
\<close>

definition example_tree :: element where
  "example_tree =
     UnorderedListElem None
       [UnorderedListItemElem
          [Text ''a'',
           UnorderedListElem None
             [UnorderedListItemElem
                [Text ''b'',
                 UnorderedListElem None [UnorderedListItemElem [Text ''c'']]]]],
        UnorderedListItemElem [Text ''d'']]"

definition example_config :: config where
  "example_config =
     ConfigFunction (\<lambda>props. JObject [(''marker'', JArray [JString ''*'', JString ''o''])])"

definition props_config :: config where
  "props_config =
     ConfigFunction (\<lambda>props. JObject [(''marker'', JString (if props = [] then ''+'' else ''*''))])"

section \<open>Auxiliary facts\<close>

subsection \<open>Resolution\<close>

lemma listItemContext_string:
  "js_optional_get (resolvedConfig config props) ''marker'' = Inr (JString m)
   \<Longrightarrow> listItemContext dm config props d = Inr \<lparr>marker = JString m\<rparr>"
  by (simp add: listItemContext_def)

lemma listItemContext_array:
  "js_optional_get (resolvedConfig config props) ''marker'' = Inr (JArray xs)
   \<Longrightarrow> listItemContext dm config props d =
       Inr \<lparr>marker = js_coalesce (js_coalesce (js_index xs d) (js_at xs (- 1))) (JString dm)\<rparr>"
  by (simp add: listItemContext_def)

lemma js_optional_get_total: "\<exists>v. js_optional_get c k = Inr v"
  by (cases c) (simp_all add: js_optional_get_def)

lemma js_index_in_range:
  "0 \<le> d \<Longrightarrow> d < int (length S) \<Longrightarrow> js_index (map JString S) d = JString (S ! nat d)"
  by (simp add: js_index_def)

lemma js_index_beyond:
  "int (length xs) \<le> d \<Longrightarrow> js_index xs d = JUndefined"
  by (simp add: js_index_def)

lemma js_at_last:
  "S \<noteq> [] \<Longrightarrow> js_at (map JString S) (- 1) = JString (S ! (length S - 1))"
proof -
  assume ne: "S \<noteq> []"
  then have pos: "length S - 1 < length S" by simp
  have k: "nat (int (length S) - 1) = length S - 1" by arith
  from ne have "js_at (map JString S) (- 1) = map JString S ! nat (int (length S) - 1)"
    by (simp add: js_at_def Let_def)
  also have "\<dots> = map JString S ! (length S - 1)"
    by (simp only: k)
  also from pos have "\<dots> = JString (S ! (length S - 1))"
    by (rule nth_map)
  finally show ?thesis .
qed

lemma js_index_cases: "js_index xs d = JUndefined \<or> js_index xs d \<in> set xs"
proof (cases "0 \<le> d \<and> d < int (length xs)")
  case True
  then have "nat d < length xs" by arith
  then have "xs ! nat d \<in> set xs" by (rule nth_mem)
  with True show ?thesis by (simp add: js_index_def)
next
  case False
  then show ?thesis by (auto simp: js_index_def)
qed

lemma js_at_cases: "js_at xs i = JUndefined \<or> js_at xs i \<in> set xs"
proof -
  define k where "k = (if 0 \<le> i then i else int (length xs) + i)"
  show ?thesis
  proof (cases "k < 0 \<or> int (length xs) \<le> k")
    case True
    then show ?thesis by (simp add: js_at_def Let_def k_def)
  next
    case False
    then have "nat k < length xs" by arith
    then have "xs ! nat k \<in> set xs" by (rule nth_mem)
    with False show ?thesis by (simp add: js_at_def Let_def k_def)
  qed
qed

lemma js_coalesce_default: "js_coalesce a (JString s) \<noteq> JUndefined \<and> js_coalesce a (JString s) \<noteq> JNull"
  by (simp add: js_coalesce_def)

lemma js_coalesce_strings:
  assumes "is_string a \<or> a = JUndefined \<or> a = JNull"
    and "is_string b \<or> b = JUndefined \<or> b = JNull"
  shows "is_string (js_coalesce (js_coalesce a b) (JString s))"
  using assms by (auto simp: js_coalesce_def)

subsection \<open>What a render returns\<close>

lemma listItemContext_total: "\<exists>m. listItemContext dm cfg props d = Inr \<lparr>marker = m\<rparr>"
proof -
  obtain v where v: "js_optional_get (resolvedConfig cfg props) ''marker'' = Inr v"
    using js_optional_get_total by blast
  show ?thesis
    by (cases v) (simp_all add: listItemContext_def v)
qed

lemma UnorderedList_total:
  "\<exists>m. UnorderedList dm cfg lc memo es = Inr (listContext (depth lc), \<lparr>marker = m\<rparr>)
       \<and> listItemContext dm cfg (memo_props memo es) (depth lc) = Inr \<lparr>marker = m\<rparr>"
proof -
  obtain m where "listItemContext dm cfg (memo_props memo es) (depth lc) = Inr \<lparr>marker = m\<rparr>"
    using listItemContext_total by blast
  then show ?thesis by (simp add: UnorderedList_def)
qed

lemma sequence_map_Inr_id: "sequence (map Inr ys) = Inr ys"
  by (induction ys) simp_all

lemma sequence_Inr_D: "sequence xs = Inr ys \<Longrightarrow> xs = map Inr ys"
  by (induction xs arbitrary: ys) (auto split: sum.splits)

lemma sequence_Inr_iff: "sequence xs = Inr ys \<longleftrightarrow> xs = map Inr ys"
  using sequence_Inr_D sequence_map_Inr_id by blast

lemma sequence_map_Inr:
  "sequence (map g xs) = Inr ys \<Longrightarrow> i < length xs \<Longrightarrow> length ys = length xs \<and> g (xs ! i) = Inr (ys ! i)"
proof -
  assume "sequence (map g xs) = Inr ys" and i: "i < length xs"
  then have eq: "map g xs = map Inr ys" by (simp add: sequence_Inr_iff)
  then have len: "length ys = length xs" by (metis length_map)
  from eq have "map g xs ! i = map Inr ys ! i" by simp
  with i len show ?thesis by simp
qed

lemma sequence_total:
  "(\<And>x. x \<in> set xs \<Longrightarrow> \<exists>v. g x = Inr v) \<Longrightarrow> \<exists>vs. sequence (map g xs) = Inr vs"
proof (induction xs)
  case Nil
  then show ?case by simp
next
  case (Cons x xs)
  then obtain v vs where "g x = Inr v" "sequence (map g xs) = Inr vs"
    by (meson list.set_intros)
  then show ?case by simp
qed

lemma is_string_renderable: "is_string m \<Longrightarrow> renderable m"
  by (cases m) simp_all

lemma listItemContext_typed:
  assumes "js_optional_get (resolvedConfig cfg props) ''marker'' = Inr c"
    and "strings_or_holes c"
  shows "\<exists>m. listItemContext dm cfg props d = Inr \<lparr>marker = m\<rparr> \<and> is_string m"
proof (cases c)
  case (JArray xs)
  from assms(2) JArray have all: "\<forall>x\<in>set xs. is_string x \<or> x = JUndefined \<or> x = JNull"
    by (simp add: list_all_iff)
  from all js_index_cases[of xs d]
  have i: "is_string (js_index xs d) \<or> js_index xs d = JUndefined \<or> js_index xs d = JNull"
    by auto
  from all js_at_cases[of xs "- 1"]
  have l: "is_string (js_at xs (- 1)) \<or> js_at xs (- 1) = JUndefined \<or> js_at xs (- 1) = JNull"
    by auto
  from js_coalesce_strings[OF i l] assms(1) JArray show ?thesis
    by (simp add: listItemContext_array)
qed (simp_all add: listItemContext_def assms(1))

lemma render_returns:
  "typed_theme cfg \<Longrightarrow> renderable (marker ic) \<Longrightarrow> \<exists>f. render dm cfg lc ic e = Inr f"
proof (induction dm cfg lc ic e rule: render.induct)
  case (1 dm cfg lc ic s)
  then show ?case by simp
next
  case (2 dm cfg lc ic es)
  then obtain fs where "sequence (map (render dm cfg lc ic) es) = Inr fs"
    using sequence_total[of es "render dm cfg lc ic"] by blast
  then show ?case by simp
next
  case (3 dm cfg lc ic memo es)
  obtain m where u: "UnorderedList dm cfg lc memo es = Inr (listContext (depth lc), \<lparr>marker = m\<rparr>)"
    and r: "listItemContext dm cfg (memo_props memo es) (depth lc) = Inr \<lparr>marker = m\<rparr>"
    using UnorderedList_total by blast
  from "3.prems"(1) obtain c where
    "js_optional_get (resolvedConfig cfg (memo_props memo es)) ''marker'' = Inr c" "strings_or_holes c"
    by blast
  from listItemContext_typed[OF this, of dm "depth lc"] r have m: "renderable m"
    by (auto intro: is_string_renderable)
  have "\<exists>v. render dm cfg (listContext (depth lc)) \<lparr>marker = m\<rparr> x = Inr v" if "x \<in> set es" for x
    using "3.IH"[OF u refl that "3.prems"(1)] m by simp
  then obtain fs where
    "sequence (map (render dm cfg (listContext (depth lc)) \<lparr>marker = m\<rparr>) es) = Inr fs"
    using sequence_total[of es "render dm cfg (listContext (depth lc)) \<lparr>marker = m\<rparr>"] by blast
  with u show ?case by simp
next
  case (4 dm cfg lc ic es)
  from "4.prems"(2) have i: "UnorderedListItem ic = Inr (marker ic)"
    by (simp add: UnorderedListItem_def)
  have "\<exists>v. render dm cfg lc ic x = Inr v" if "x \<in> set es" for x
    using "4.IH"[OF i that "4.prems"] .
  then obtain fs where "sequence (map (render dm cfg lc ic) es) = Inr fs"
    using sequence_total[of es "render dm cfg lc ic"] by blast
  with i show ?case by simp
qed

lemma render_child_plain:
  assumes "render dm cfg lc ic e = Inr f" and "i < length (children e)" and "\<not> is_list e"
  shows "i < length (fiber_children f)
         \<and> render dm cfg lc ic (children e ! i) = Inr (fiber_children f ! i)"
proof (cases e)
  case (Text s)
  with assms show ?thesis by simp
next
  case (Box es)
  with assms obtain fs where fs: "sequence (map (render dm cfg lc ic) es) = Inr fs" "f = BoxFiber fs"
    by (auto split: sum.splits)
  with assms Box sequence_map_Inr[OF fs(1), of i] show ?thesis by simp
next
  case (UnorderedListElem memo es)
  with assms show ?thesis by simp
next
  case (UnorderedListItemElem es)
  with assms obtain fs where fs: "sequence (map (render dm cfg lc ic) es) = Inr fs"
      "f = ItemFiber (marker ic) fs"
    by (auto simp: UnorderedListItem_def Let_def split: sum.splits if_splits)
  with assms UnorderedListItemElem sequence_map_Inr[OF fs(1), of i] show ?thesis by simp
qed

lemma render_list:
  assumes "render dm cfg lc ic (UnorderedListElem memo es) = Inr f"
  shows "\<exists>m fs. listItemContext dm cfg (memo_props memo es) (depth lc) = Inr \<lparr>marker = m\<rparr>
           \<and> f = ListFiber (depth lc) (listContext (depth lc)) \<lparr>marker = m\<rparr> fs
           \<and> sequence (map (render dm cfg (listContext (depth lc)) \<lparr>marker = m\<rparr>) es) = Inr fs"
proof -
  obtain m where m: "UnorderedList dm cfg lc memo es = Inr (listContext (depth lc), \<lparr>marker = m\<rparr>)"
      "listItemContext dm cfg (memo_props memo es) (depth lc) = Inr \<lparr>marker = m\<rparr>"
    using UnorderedList_total by blast
  with assms show ?thesis by (auto split: sum.splits)
qed

lemma render_child_list:
  assumes "render dm cfg lc ic (UnorderedListElem memo es) = Inr f" and "i < length es"
  shows "\<exists>m. listItemContext dm cfg (memo_props memo es) (depth lc) = Inr \<lparr>marker = m\<rparr>
           \<and> f = ListFiber (depth lc) (listContext (depth lc)) \<lparr>marker = m\<rparr> (fiber_children f)
           \<and> i < length (fiber_children f)
           \<and> render dm cfg (listContext (depth lc)) \<lparr>marker = m\<rparr> (es ! i)
               = Inr (fiber_children f ! i)"
proof -
  from render_list[OF assms(1)] obtain m fs where
    m: "listItemContext dm cfg (memo_props memo es) (depth lc) = Inr \<lparr>marker = m\<rparr>"
    and f: "f = ListFiber (depth lc) (listContext (depth lc)) \<lparr>marker = m\<rparr> fs"
    and fs: "sequence (map (render dm cfg (listContext (depth lc)) \<lparr>marker = m\<rparr>) es) = Inr fs"
    by blast
  from sequence_map_Inr[OF fs assms(2)] m f assms(2) show ?thesis by auto
qed

lemma is_list_cases: "is_list e \<Longrightarrow> \<exists>memo es. e = UnorderedListElem memo es"
  by (cases e) simp_all

lemma depth_at_position:
  "render dm cfg lc ic e = Inr f \<Longrightarrow> subtree_at e p = Some (UnorderedListElem memo kids)
   \<Longrightarrow> depth lc + int (lists_above e p) < 2 ^ 53
   \<Longrightarrow> observed_depth f p = Some (depth lc + int (lists_above e p))
       \<and> provided_depth f p = Some (depth lc + int (lists_above e p) + 1)"
proof (induction p arbitrary: e lc ic f)
  case Nil
  then have e: "e = UnorderedListElem memo kids" by simp
  from Nil(3) have "js_increment (depth lc) = depth lc + 1"
    by (simp add: js_increment_def)
  with render_list[OF Nil(1)[unfolded e]] show ?case
    by (auto simp: observed_depth_def provided_depth_def listContext_def)
next
  case (Cons i p)
  then have i: "i < length (children e)"
    and sub: "subtree_at (children e ! i) p = Some (UnorderedListElem memo kids)"
    by (auto split: if_splits)
  show ?case
  proof (cases "is_list e")
    case False
    with Cons.prems(3) i
    have b: "depth lc + int (lists_above (children e ! i) p) < 2 ^ 53" by simp
    from render_child_plain[OF Cons.prems(1) i False] Cons.IH[OF _ sub b] i False
    show ?thesis by (auto simp: observed_depth_def provided_depth_def)
  next
    case True
    then obtain memo' es where e: "e = UnorderedListElem memo' es" using is_list_cases by blast
    with i have i': "i < length es" by simp
    from Cons.prems(3) e i'
    have b: "depth lc + 1 + int (lists_above (es ! i) p) < 2 ^ 53" by simp
    then have inc: "js_increment (depth lc) = depth lc + 1"
      by (simp add: js_increment_def)
    from render_child_list[OF Cons.prems(1)[unfolded e] i'] obtain m where
      r: "render dm cfg (listContext (depth lc)) \<lparr>marker = m\<rparr> (es ! i) = Inr (fiber_children f ! i)"
      and l: "i < length (fiber_children f)" by blast
    from sub e have sub': "subtree_at (es ! i) p = Some (UnorderedListElem memo kids)" by simp
    from b inc have b': "depth (listContext (depth lc)) + int (lists_above (es ! i) p) < 2 ^ 53"
      by (simp add: listContext_def)
    from Cons.IH[OF r sub' b'] l i' e inc show ?thesis
      by (auto simp: observed_depth_def provided_depth_def listContext_def)
  qed
qed

lemma render_at_position:
  "render dm cfg lc ic e = Inr f \<Longrightarrow> subtree_at e p = Some e'
   \<Longrightarrow> \<exists>lc' ic' f'. fiber_at f p = Some f' \<and> render dm cfg lc' ic' e' = Inr f'
         \<and> (case enclosing_list e p of
               None \<Rightarrow> ic' = ic
             | Some q \<Rightarrow> provided_marker f q = Some (marker ic')
                 \<and> (\<exists>memo kids. subtree_at e q = Some (UnorderedListElem memo kids)))"
proof (induction p arbitrary: e lc ic f)
  case Nil
  then show ?case by auto
next
  case (Cons i p)
  then have i: "i < length (children e)"
    and sub: "subtree_at (children e ! i) p = Some e'"
    by (auto split: if_splits)
  show ?case
  proof (cases "is_list e")
    case False
    from render_child_plain[OF Cons.prems(1) i False]
    have l: "i < length (fiber_children f)"
      and r: "render dm cfg lc ic (children e ! i) = Inr (fiber_children f ! i)" by auto
    from Cons.IH[OF r sub] obtain lc' ic' f' where
      ih: "fiber_at (fiber_children f ! i) p = Some f'" "render dm cfg lc' ic' e' = Inr f'"
        "(case enclosing_list (children e ! i) p of
               None \<Rightarrow> ic' = ic
             | Some q \<Rightarrow> provided_marker (fiber_children f ! i) q = Some (marker ic')
                 \<and> (\<exists>memo kids. subtree_at (children e ! i) q = Some (UnorderedListElem memo kids)))"
      by blast
    from ih l i False have
      "fiber_at f (i # p) = Some f' \<and> render dm cfg lc' ic' e' = Inr f'
         \<and> (case enclosing_list e (i # p) of
               None \<Rightarrow> ic' = ic
             | Some q \<Rightarrow> provided_marker f q = Some (marker ic')
                 \<and> (\<exists>memo kids. subtree_at e q = Some (UnorderedListElem memo kids)))"
      by (auto simp: provided_marker_def split: option.splits)
    then show ?thesis by blast
  next
    case True
    then obtain memo es where e: "e = UnorderedListElem memo es" using is_list_cases by blast
    with i have i': "i < length es" by simp
    from render_child_list[OF Cons.prems(1)[unfolded e] i'] obtain m where
      f: "f = ListFiber (depth lc) (listContext (depth lc)) \<lparr>marker = m\<rparr> (fiber_children f)"
      and r: "render dm cfg (listContext (depth lc)) \<lparr>marker = m\<rparr> (es ! i) = Inr (fiber_children f ! i)"
      and l: "i < length (fiber_children f)" by blast
    from sub e have sub': "subtree_at (es ! i) p = Some e'" by simp
    from Cons.IH[OF r sub'] obtain lc' ic' f' where
      ih: "fiber_at (fiber_children f ! i) p = Some f'" "render dm cfg lc' ic' e' = Inr f'"
        "(case enclosing_list (es ! i) p of
               None \<Rightarrow> ic' = \<lparr>marker = m\<rparr>
             | Some q \<Rightarrow> provided_marker (fiber_children f ! i) q = Some (marker ic')
                 \<and> (\<exists>memo kids. subtree_at (es ! i) q = Some (UnorderedListElem memo kids)))"
      by blast
    have pm: "provided_marker f [] = Some m"
      by (subst f) (simp add: provided_marker_def)
    from ih l i' e pm have
      "fiber_at f (i # p) = Some f' \<and> render dm cfg lc' ic' e' = Inr f'
         \<and> (case enclosing_list e (i # p) of
               None \<Rightarrow> ic' = ic
             | Some q \<Rightarrow> provided_marker f q = Some (marker ic')
                 \<and> (\<exists>memo kids. subtree_at e q = Some (UnorderedListElem memo kids)))"
      by (auto simp: provided_marker_def split: option.splits)
    then show ?thesis by blast
  qed
qed

lemma list_at_position:
  assumes "render dm cfg lc ic e = Inr f" and "subtree_at e q = Some (UnorderedListElem memo kids)"
  shows "\<exists>d m. observed_depth f q = Some d \<and> provided_marker f q = Some m
           \<and> listItemContext dm cfg (memo_props memo kids) d = Inr \<lparr>marker = m\<rparr>"
proof -
  from render_at_position[OF assms] obtain lc' ic' f' where
    at: "fiber_at f q = Some f'" and r: "render dm cfg lc' ic' (UnorderedListElem memo kids) = Inr f'"
    by blast
  from render_list[OF r] at show ?thesis
    by (auto simp: observed_depth_def provided_marker_def)
qed

lemma item_at_position:
  assumes "render dm cfg lc ic e = Inr f" and "subtree_at e p = Some (UnorderedListItemElem cs)"
  shows "case enclosing_list e p of
           None \<Rightarrow> observed_marker f p = Some (marker ic)
         | Some q \<Rightarrow> observed_marker f p = provided_marker f q
                 \<and> (\<exists>memo kids. subtree_at e q = Some (UnorderedListElem memo kids))"
proof -
  from render_at_position[OF assms] obtain lc' ic' f' where
    at: "fiber_at f p = Some f'" and r: "render dm cfg lc' ic' (UnorderedListItemElem cs) = Inr f'"
    and sc: "(case enclosing_list e p of
               None \<Rightarrow> ic' = ic
             | Some q \<Rightarrow> provided_marker f q = Some (marker ic')
                 \<and> (\<exists>memo kids. subtree_at e q = Some (UnorderedListElem memo kids)))"
    by blast
  from r have "\<exists>fs. f' = ItemFiber (marker ic') fs"
    by (auto simp: UnorderedListItem_def Let_def split: sum.splits if_splits)
  with at have "observed_marker f p = Some (marker ic')"
    by (auto simp: observed_marker_def)
  with sc show ?thesis by (auto split: option.splits)
qed

subsection \<open>Two places where a render departs from the ideal\<close>

text \<open>An object in the marker array fails the render at the list's item, and a list that
  reads the depth \<open>2^53\<close> provides the same depth to its subtree.\<close>

lemma render_object_marker:
  "render ''-'' (ConfigValue (JObject [(''marker'', JArray [JObject []])])) UnorderedListContext
     (UnorderedListItemContext ''-'') (UnorderedListElem None [UnorderedListItemElem [Text ''a'']])
   = Inl InvalidChild"
  by (simp add: UnorderedList_def listItemContext_def resolvedConfig_def js_optional_get_def
      js_coalesce_def js_index_def memo_props_def UnorderedListContext_def UnorderedListItem_def)

lemma listContext_saturates: "listContext (2 ^ 53) = \<lparr>depth = 2 ^ 53\<rparr>"
  by (simp add: listContext_def js_increment_def)

section \<open>Marker resolution\<close>

text \<open>
  In the statements below the marker configuration of a list is what the component reads
  as \<open>resolvedConfig?.marker\<close>; a sequence of strings \<open>S\<close> is the array
  \<open>JArray (map JString S)\<close>, and \<open>fallback\<close> is the default marker.
\<close>

text \<open>
  \<^bold>\<open>C3\<close> (in-range array resolution). For every non-empty sequence of strings \<open>S\<close>,
  every fallback and every depth \<open>d\<close> with \<open>0 \<le> d < len(S)\<close>, resolution returns
  \<open>S[d]\<close>.
\<close>

theorem in_range_array_resolution:
  assumes "js_optional_get (resolvedConfig config props) ''marker'' = Inr (JArray (map JString S))"
    and "S \<noteq> []" and "0 \<le> d" and "d < int (length S)"
  shows "listItemContext fallback config props d = Inr \<lparr>marker = JString (S ! nat d)\<rparr>"
  using assms
  by (simp add: listItemContext_array js_index_in_range js_coalesce_def)

theorem in_range_array_resolution_witness:
  "listItemContext ''-'' (ConfigValue (JObject [(''marker'', JArray [JString ''*'', JString ''o'', JString ''+''])])) [] 1
     = Inr \<lparr>marker = JString ''o''\<rparr>"
  using in_range_array_resolution
    [of "ConfigValue (JObject [(''marker'', JArray [JString ''*'', JString ''o'', JString ''+''])])"
        "[]" "[''*'', ''o'', ''+'']" 1 "''-''"]
  by (simp add: js_optional_get_def resolvedConfig_def)

text \<open>
  \<^bold>\<open>C4\<close> (saturation). For every non-empty sequence of strings \<open>S\<close>, every fallback
  and every depth \<open>d \<ge> len(S)\<close>, resolution returns the last element \<open>S[len(S) - 1]\<close>.
\<close>

theorem saturated_array_resolution:
  assumes "js_optional_get (resolvedConfig config props) ''marker'' = Inr (JArray (map JString S))"
    and "S \<noteq> []" and "int (length S) \<le> d"
  shows "listItemContext fallback config props d
           = Inr \<lparr>marker = JString (S ! (length S - 1))\<rparr>"
  using assms
  by (simp add: listItemContext_array js_index_beyond js_at_last js_coalesce_def)

theorem saturated_array_resolution_witness:
  "listItemContext ''-'' example_config [] 2 = Inr \<lparr>marker = JString ''o''\<rparr>
   \<and> listItemContext ''-'' example_config [] 40 = Inr \<lparr>marker = JString ''o''\<rparr>"
  using saturated_array_resolution [of example_config "[]" "[''*'', ''o'']" 2 "''-''"]
    saturated_array_resolution [of example_config "[]" "[''*'', ''o'']" 40 "''-''"]
  by (simp add: js_optional_get_def resolvedConfig_def example_config_def)

text \<open>
  \<^bold>\<open>C5\<close> (single-string configuration). A configuration that is a single string \<open>m\<close>
  resolves to \<open>m\<close> at every depth and for every fallback: the depth is ignored.
\<close>

theorem single_string_resolution:
  assumes "js_optional_get (resolvedConfig config props) ''marker'' = Inr (JString m)"
  shows "listItemContext fallback config props d = Inr \<lparr>marker = JString m\<rparr>"
  using assms by (rule listItemContext_string)

theorem single_string_resolution_witness:
  "listItemContext ''-'' (ConfigValue (JObject [(''marker'', JString ''+'')])) [] 3
     = Inr \<lparr>marker = JString ''+''\<rparr>"
  using single_string_resolution
    [of "ConfigValue (JObject [(''marker'', JString ''+'')])" "[]" "''+''" "''-''" 3]
  by (simp add: js_optional_get_def resolvedConfig_def)

text \<open>
  \<^bold>\<open>C6\<close> (fallback on empty, absent or malformed configuration), as the code has it. At
  every depth \<open>d\<close>, resolution returns the default marker, and does not fail, when the
  theme's configuration is \<open>undefined\<close> or \<open>null\<close>, or when its \<open>marker\<close> is the empty array,
  is \<open>undefined\<close> or \<open>null\<close> (also: not there), or is neither a single string nor a
  sequence of strings and, if it is an array, holds \<open>undefined\<close> or \<open>null\<close> both at index
  \<open>d\<close> and at its last position.
\<close>

theorem fallback_resolution:
  assumes "resolvedConfig config props = JUndefined \<or> resolvedConfig config props = JNull
           \<or> (\<exists>m. js_optional_get (resolvedConfig config props) ''marker'' = Inr m
                 \<and> (m = JArray [] \<or> m = JUndefined \<or> m = JNull
                      \<or> (\<not> accepted_shape m \<and> no_selected_element m d)))"
  shows "listItemContext defaultMarker config props d = Inr \<lparr>marker = JString defaultMarker\<rparr>"
proof -
  from assms obtain m where m: "js_optional_get (resolvedConfig config props) ''marker'' = Inr m"
    and shape: "m = JArray [] \<or> m = JUndefined \<or> m = JNull
                \<or> (\<not> accepted_shape m \<and> no_selected_element m d)"
    by (auto simp: js_optional_get_def)
  from shape show ?thesis
    by (cases m) (auto simp: listItemContext_def m js_coalesce_def js_index_def js_at_def)
qed

theorem fallback_resolution_witness:
  "listItemContext ''-'' (ConfigValue (JObject [(''marker'', JArray [])])) [] 2 = Inr \<lparr>marker = JString ''-''\<rparr>
   \<and> listItemContext ''-'' (ConfigValue JUndefined) [] 0 = Inr \<lparr>marker = JString ''-''\<rparr>
   \<and> listItemContext ''-'' (ConfigValue (JObject [])) [] 1 = Inr \<lparr>marker = JString ''-''\<rparr>
   \<and> listItemContext ''-'' (ConfigValue (JObject [(''marker'', JNumber 7)])) [] 0 = Inr \<lparr>marker = JString ''-''\<rparr>
   \<and> listItemContext ''-'' (ConfigValue (JObject [(''marker'', JArray [JNull])])) [] 3 = Inr \<lparr>marker = JString ''-''\<rparr>
   \<and> listItemContext ''-'' (ConfigValue (JObject [(''marker'', JArray [JUndefined, JNumber 5, JNull])])) [] 0
       = Inr \<lparr>marker = JString ''-''\<rparr>"
  using fallback_resolution [of "ConfigValue (JObject [(''marker'', JArray [])])" "[]" 2 "''-''"]
    fallback_resolution [of "ConfigValue JUndefined" "[]" 0 "''-''"]
    fallback_resolution [of "ConfigValue (JObject [])" "[]" 1 "''-''"]
    fallback_resolution [of "ConfigValue (JObject [(''marker'', JNumber 7)])" "[]" 0 "''-''"]
    fallback_resolution [of "ConfigValue (JObject [(''marker'', JArray [JNull])])" "[]" 3 "''-''"]
    fallback_resolution [of "ConfigValue (JObject [(''marker'', JArray [JUndefined, JNumber 5, JNull])])" "[]" 0 "''-''"]
  by (simp add: resolvedConfig_def js_optional_get_def js_index_def js_at_def)

text \<open>
  The claim does not hold for every configuration that is neither a single string nor a
  sequence of strings: the array \<open>[5]\<close> is of neither shape, passes \<open>Array.isArray\<close>, and
  at depth \<open>0\<close> its element \<open>5\<close> is returned, not the default marker.
\<close>

theorem fallback_malformed_counterexample:
  "\<not> accepted_shape (JArray [JNumber 5])
   \<and> listItemContext ''-'' (ConfigValue (JObject [(''marker'', JArray [JNumber 5])])) [] 0
       = Inr \<lparr>marker = JNumber 5\<rparr>
   \<and> listItemContext ''-'' (ConfigValue (JObject [(''marker'', JArray [JNumber 5])])) [] 0
       \<noteq> Inr \<lparr>marker = JString ''-''\<rparr>"
  by (simp add: listItemContext_def resolvedConfig_def js_optional_get_def js_coalesce_def js_index_def)

text \<open>
  \<^bold>\<open>C8\<close> (totality of resolution), as the code has it. For every configuration value and
  every depth, resolution returns normally, and what it returns is never \<open>undefined\<close> or
  \<open>null\<close>. It is a string whenever the array elements of the configuration, if it is an
  array, are strings or holes.
\<close>

theorem resolution_total:
  "\<exists>m. listItemContext fallback config props d = Inr \<lparr>marker = m\<rparr>
       \<and> m \<noteq> JUndefined \<and> m \<noteq> JNull
       \<and> ((\<exists>c. js_optional_get (resolvedConfig config props) ''marker'' = Inr c
              \<and> strings_or_holes c) \<longrightarrow> is_string m)"
proof -
  obtain c where c: "js_optional_get (resolvedConfig config props) ''marker'' = Inr c"
    using js_optional_get_total by blast
  show ?thesis
  proof (cases c)
    case (JArray xs)
    let ?m = "js_coalesce (js_coalesce (js_index xs d) (js_at xs (- 1))) (JString fallback)"
    have r: "listItemContext fallback config props d = Inr \<lparr>marker = ?m\<rparr>"
      using c JArray by (simp add: listItemContext_array)
    have "is_string ?m" if "strings_or_holes c"
    proof (rule js_coalesce_strings)
      from that JArray have all: "\<forall>x\<in>set xs. is_string x \<or> x = JUndefined \<or> x = JNull"
        by (simp add: list_all_iff)
      from all js_index_cases[of xs d]
      show "is_string (js_index xs d) \<or> js_index xs d = JUndefined \<or> js_index xs d = JNull"
        by auto
      from all js_at_cases[of xs "- 1"]
      show "is_string (js_at xs (- 1)) \<or> js_at xs (- 1) = JUndefined \<or> js_at xs (- 1) = JNull"
        by auto
    qed
    with r c js_coalesce_default[of "js_coalesce (js_index xs d) (js_at xs (- 1))" fallback]
    show ?thesis by auto
  qed (simp_all add: listItemContext_def c)
qed

theorem resolution_total_witness:
  "\<exists>m. listItemContext ''-'' (ConfigValue (JObject [(''marker'', JArray [JNull, JString ''+''])])) [] 0
         = Inr \<lparr>marker = m\<rparr>
       \<and> m \<noteq> JUndefined \<and> m \<noteq> JNull \<and> is_string m"
  using resolution_total
    [of "''-''" "ConfigValue (JObject [(''marker'', JArray [JNull, JString ''+''])])" "[]" 0]
  by (simp add: resolvedConfig_def js_optional_get_def)

text \<open>
  A string is not what comes back for every configuration value: beyond the end of the
  array \<open>[7, 8]\<close> resolution returns the last element, the number \<open>8\<close>.
\<close>

theorem resolution_string_counterexample:
  "listItemContext ''-'' (ConfigValue (JObject [(''marker'', JArray [JNumber 7, JNumber 8])])) [] 5
     = Inr \<lparr>marker = JNumber 8\<rparr>
   \<and> \<not> is_string (JNumber 8)"
  by (simp add: listItemContext_def resolvedConfig_def js_optional_get_def js_coalesce_def
      js_index_def js_at_def)

text \<open>
  \<^bold>\<open>C10\<close> (empty-string elements are usable markers). When the element of a sequence
  configuration at the depth index is the empty string, resolution returns the empty
  string itself: neither the last element nor the default marker takes its place.
\<close>

theorem empty_string_element:
  assumes "js_optional_get (resolvedConfig config props) ''marker'' = Inr (JArray (map JString S))"
    and "0 \<le> d" and "d < int (length S)" and "S ! nat d = ''''"
  shows "listItemContext fallback config props d = Inr \<lparr>marker = JString ''''\<rparr>"
  using assms
  by (simp add: listItemContext_array js_index_in_range js_coalesce_def)

theorem empty_string_element_witness:
  "listItemContext ''-'' (ConfigValue (JObject [(''marker'', JArray [JString '''', JString ''o''])])) [] 0
     = Inr \<lparr>marker = JString ''''\<rparr>"
  using empty_string_element
    [of "ConfigValue (JObject [(''marker'', JArray [JString '''', JString ''o''])])"
        "[]" "['''', ''o'']" 0 "''-''"]
  by (simp add: js_optional_get_def resolvedConfig_def)

section \<open>Depth propagation and marker broadcast\<close>

text \<open>
  The statements below hold for every tree, every state of the lists' memos, every theme
  configuration and every pair of context values in scope at the root; at the top of an
  application these are the contexts' defaults, \<open>UnorderedListContext\<close> with depth \<open>0\<close>
  and \<open>UnorderedListItemContext\<close> with the default marker. Each has two parts: what every
  render that returns has observed, and that the render does return under a theme of the
  declared type once the marker in scope at the root can be shown. A render under another
  theme can fail: an item cannot show a marker that is a plain object.
\<close>

text \<open>
  \<^bold>\<open>C1\<close> (depth propagation). The list container at any position of any tree reads the
  ambient depth of the root plus the number of list containers above it, and provides that
  depth plus one to its subtree. So a list directly below a list that read \<open>d\<close> (no other
  list between them) reads \<open>d + 1\<close>, and under the root default \<open>0\<close> the depth a list reads
  is its nesting level. The depths stay below \<open>2^53\<close>, where adding one is exact.
\<close>

theorem depth_propagation:
  assumes "subtree_at e p = Some (UnorderedListElem memo kids)"
    and "- (2 ^ 53) \<le> depth lc"
    and "depth lc + int (lists_above e p) < 2 ^ 53"
  shows "(\<forall>f. render dm cfg lc ic e = Inr f \<longrightarrow>
            observed_depth f p = Some (depth lc + int (lists_above e p))
            \<and> provided_depth f p = Some (depth lc + int (lists_above e p) + 1))
         \<and> (typed_theme cfg \<and> renderable (marker ic) \<longrightarrow> (\<exists>f. render dm cfg lc ic e = Inr f))"
  using depth_at_position[OF _ assms(1) assms(3)] render_returns[of cfg ic dm lc e]
  by blast

theorem depth_propagation_witness:
  "\<exists>f. render ''-'' example_config UnorderedListContext (UnorderedListItemContext ''-'') example_tree = Inr f
       \<and> observed_depth f [] = Some 0
       \<and> observed_depth f [0, 1] = Some 1
       \<and> observed_depth f [0, 1, 0, 1] = Some 2
       \<and> provided_depth f [0, 1, 0, 1] = Some 3"
proof -
  let ?r = "render ''-'' example_config UnorderedListContext (UnorderedListItemContext ''-'') example_tree"
  have typed: "typed_theme example_config"
    by (simp add: example_config_def resolvedConfig_def js_optional_get_def)
  have ic: "renderable (marker (UnorderedListItemContext ''-''))"
    by (simp add: UnorderedListItemContext_def)
  have at: "\<exists>f. ?r = Inr f"
    and "\<forall>f. ?r = Inr f \<longrightarrow> observed_depth f [] = Some 0"
    and "\<forall>f. ?r = Inr f \<longrightarrow> observed_depth f [0, 1] = Some 1"
    and "\<forall>f. ?r = Inr f \<longrightarrow> observed_depth f [0, 1, 0, 1] = Some 2 \<and> provided_depth f [0, 1, 0, 1] = Some 3"
    using typed ic
      depth_propagation[where e = example_tree and p = "[]" and lc = UnorderedListContext
        and dm = "''-''" and cfg = example_config and ic = "UnorderedListItemContext ''-''"]
      depth_propagation[where e = example_tree and p = "[0, 1]" and lc = UnorderedListContext
        and dm = "''-''" and cfg = example_config and ic = "UnorderedListItemContext ''-''"]
      depth_propagation[where e = example_tree and p = "[0, 1, 0, 1]" and lc = UnorderedListContext
        and dm = "''-''" and cfg = example_config and ic = "UnorderedListItemContext ''-''"]
    by (simp_all add: example_tree_def UnorderedListContext_def)
  then show ?thesis by blast
qed

text \<open>
  \<^bold>\<open>C2\<close> (pre-increment resolution). The list container at any position reads some depth
  \<open>d\<close>, provides \<open>d + 1\<close> as the depth of its subtree, and the marker it provides to its
  items is the one resolved at \<open>d\<close>, from the configuration applied to the props its memo
  was computed from.
\<close>

theorem pre_increment_resolution:
  assumes "subtree_at e q = Some (UnorderedListElem memo kids)"
    and "- (2 ^ 53) \<le> depth lc"
    and "depth lc + int (lists_above e q) < 2 ^ 53"
  shows "(\<forall>f. render dm cfg lc ic e = Inr f \<longrightarrow>
            (\<exists>d m. observed_depth f q = Some d
               \<and> provided_depth f q = Some (d + 1)
               \<and> listItemContext dm cfg (memo_props memo kids) d = Inr \<lparr>marker = m\<rparr>
               \<and> provided_marker f q = Some m))
         \<and> (typed_theme cfg \<and> renderable (marker ic) \<longrightarrow> (\<exists>f. render dm cfg lc ic e = Inr f))"
proof -
  have "\<exists>d m. observed_depth f q = Some d
               \<and> provided_depth f q = Some (d + 1)
               \<and> listItemContext dm cfg (memo_props memo kids) d = Inr \<lparr>marker = m\<rparr>
               \<and> provided_marker f q = Some m"
    if f: "render dm cfg lc ic e = Inr f" for f
  proof -
    from list_at_position[OF f assms(1)] obtain d m where
      l: "observed_depth f q = Some d" "provided_marker f q = Some m"
        "listItemContext dm cfg (memo_props memo kids) d = Inr \<lparr>marker = m\<rparr>"
      by blast
    from depth_at_position[OF f assms(1) assms(3)] l(1) have "provided_depth f q = Some (d + 1)"
      by simp
    with l show ?thesis by blast
  qed
  with render_returns[of cfg ic dm lc e] show ?thesis by blast
qed

theorem pre_increment_resolution_witness:
  "(\<exists>f. render ''-'' example_config UnorderedListContext (UnorderedListItemContext ''-'') example_tree = Inr f
       \<and> observed_depth f [] = Some 0
       \<and> provided_depth f [] = Some 1
       \<and> provided_marker f [] = Some (JString ''*''))
   \<and> listItemContext ''-'' example_config [] 1 = Inr \<lparr>marker = JString ''o''\<rparr>
   \<and> (\<exists>f. render ''-'' props_config UnorderedListContext (UnorderedListItemContext ''-'')
            (UnorderedListElem (Some []) [UnorderedListItemElem [Text ''a'']]) = Inr f
       \<and> provided_marker f [] = Some (JString ''+''))"
proof -
  let ?r = "render ''-'' example_config UnorderedListContext (UnorderedListItemContext ''-'') example_tree"
  let ?t = "UnorderedListElem (Some []) [UnorderedListItemElem [Text ''a'']]"
  let ?s = "render ''-'' props_config UnorderedListContext (UnorderedListItemContext ''-'') ?t"
  have res: "listItemContext ''-'' example_config kids 0 = Inr \<lparr>marker = JString ''*''\<rparr>"
    "listItemContext ''-'' example_config kids 1 = Inr \<lparr>marker = JString ''o''\<rparr>" for kids
    by (simp_all add: listItemContext_def example_config_def resolvedConfig_def js_optional_get_def
        js_coalesce_def js_index_def)
  have res': "listItemContext ''-'' props_config [] d = Inr \<lparr>marker = JString ''+''\<rparr>" for d
    by (simp add: listItemContext_def props_config_def resolvedConfig_def js_optional_get_def)
  have typed: "typed_theme example_config" "typed_theme props_config"
    by (simp_all add: example_config_def props_config_def resolvedConfig_def js_optional_get_def)
  have ic: "renderable (marker (UnorderedListItemContext ''-''))"
    by (simp add: UnorderedListItemContext_def)
  from pre_increment_resolution[where e = example_tree and q = "[]" and lc = UnorderedListContext
      and dm = "''-''" and cfg = example_config and ic = "UnorderedListItemContext ''-''"] typed ic
  obtain f d m where f: "?r = Inr f"
    and o: "observed_depth f [] = Some d" "provided_depth f [] = Some (d + 1)"
    and m: "listItemContext ''-'' example_config (memo_props None (children example_tree)) d = Inr \<lparr>marker = m\<rparr>"
      "provided_marker f [] = Some m"
    by (auto simp: example_tree_def UnorderedListContext_def)
  from depth_at_position[OF f, of "[]"] o(1) have d: "d = 0"
    by (simp add: example_tree_def UnorderedListContext_def)
  with m res(1) have "m = JString ''*''" by simp
  with f o m d have first: "\<exists>f. ?r = Inr f \<and> observed_depth f [] = Some 0
       \<and> provided_depth f [] = Some 1 \<and> provided_marker f [] = Some (JString ''*'')"
    by auto
  from pre_increment_resolution[where e = ?t and q = "[]" and lc = UnorderedListContext
      and dm = "''-''" and cfg = props_config and ic = "UnorderedListItemContext ''-''"] typed ic
  obtain g d' m' where g: "?s = Inr g"
    and m': "listItemContext ''-'' props_config (memo_props (Some []) [UnorderedListItemElem [Text ''a'']]) d'
               = Inr \<lparr>marker = m'\<rparr>"
      "provided_marker g [] = Some m'"
    by (auto simp: UnorderedListContext_def)
  from m'(1) res' have "m' = JString ''+''" by (simp add: memo_props_def)
  with g m' have second: "\<exists>f. ?s = Inr f \<and> provided_marker f [] = Some (JString ''+'')"
    by auto
  from first res(2) second show ?thesis by blast
qed

text \<open>
  \<^bold>\<open>C7\<close> (marker broadcast isolation). Every item observes the marker that its nearest
  enclosing list resolved at the depth that list read. A list nested inside an item is
  not the nearest enclosing list of that item's siblings, so the marker it resolves at the
  next depth does not reach them.
\<close>

theorem marker_broadcast_isolation:
  assumes "subtree_at e p = Some (UnorderedListItemElem cs)"
    and "enclosing_list e p = Some q"
    and "- (2 ^ 53) \<le> depth lc" and "depth lc \<le> 2 ^ 53"
  shows "(\<forall>f. render dm cfg lc ic e = Inr f \<longrightarrow>
            (\<exists>memo kids d m. subtree_at e q = Some (UnorderedListElem memo kids)
               \<and> observed_depth f q = Some d
               \<and> listItemContext dm cfg (memo_props memo kids) d = Inr \<lparr>marker = m\<rparr>
               \<and> observed_marker f p = Some m))
         \<and> (typed_theme cfg \<and> renderable (marker ic) \<longrightarrow> (\<exists>f. render dm cfg lc ic e = Inr f))"
proof -
  have "\<exists>memo kids d m. subtree_at e q = Some (UnorderedListElem memo kids)
               \<and> observed_depth f q = Some d
               \<and> listItemContext dm cfg (memo_props memo kids) d = Inr \<lparr>marker = m\<rparr>
               \<and> observed_marker f p = Some m"
    if f: "render dm cfg lc ic e = Inr f" for f
  proof -
    from item_at_position[OF f assms(1)] assms(2) obtain memo kids where
      om: "observed_marker f p = provided_marker f q"
      and q: "subtree_at e q = Some (UnorderedListElem memo kids)"
      by auto
    from list_at_position[OF f q] obtain d m where
      "observed_depth f q = Some d" "provided_marker f q = Some m"
      "listItemContext dm cfg (memo_props memo kids) d = Inr \<lparr>marker = m\<rparr>"
      by blast
    with om q show ?thesis by auto
  qed
  with render_returns[of cfg ic dm lc e] show ?thesis by blast
qed

theorem marker_broadcast_isolation_witness:
  "\<exists>f. render ''-'' example_config UnorderedListContext (UnorderedListItemContext ''-'') example_tree = Inr f
       \<and> observed_marker f [0] = Some (JString ''*'')
       \<and> observed_marker f [0, 1, 0] = Some (JString ''o'')
       \<and> observed_marker f [1] = Some (JString ''*'')"
proof -
  let ?r = "render ''-'' example_config UnorderedListContext (UnorderedListItemContext ''-'') example_tree"
  have res: "listItemContext ''-'' example_config kids 0 = Inr \<lparr>marker = JString ''*''\<rparr>"
    "listItemContext ''-'' example_config kids 1 = Inr \<lparr>marker = JString ''o''\<rparr>" for kids
    by (simp_all add: listItemContext_def example_config_def resolvedConfig_def js_optional_get_def
        js_coalesce_def js_index_def)
  have typed: "typed_theme example_config"
    by (simp add: example_config_def resolvedConfig_def js_optional_get_def)
  have ic: "renderable (marker (UnorderedListItemContext ''-''))"
    by (simp add: UnorderedListItemContext_def)
  from typed ic obtain f where f: "?r = Inr f"
    using marker_broadcast_isolation[where e = example_tree and p = "[1]" and q = "[]"
        and lc = UnorderedListContext and dm = "''-''" and cfg = example_config
        and ic = "UnorderedListItemContext ''-''"]
    by (auto simp: example_tree_def UnorderedListContext_def)
  have d0: "observed_depth f [] = Some 0" and d1: "observed_depth f [0, 1] = Some 1"
    using depth_at_position[OF f, of "[]"] depth_at_position[OF f, of "[0, 1]"]
    by (simp_all add: example_tree_def UnorderedListContext_def)
  have "observed_marker f [1] = Some (JString ''*'')"
    using marker_broadcast_isolation[where e = example_tree and p = "[1]" and q = "[]"
        and lc = UnorderedListContext and dm = "''-''" and cfg = example_config
        and ic = "UnorderedListItemContext ''-''"] f d0 res
    by (auto simp: example_tree_def UnorderedListContext_def)
  moreover have "observed_marker f [0] = Some (JString ''*'')"
    using marker_broadcast_isolation[where e = example_tree and p = "[0]" and q = "[]"
        and lc = UnorderedListContext and dm = "''-''" and cfg = example_config
        and ic = "UnorderedListItemContext ''-''"] f d0 res
    by (auto simp: example_tree_def UnorderedListContext_def)
  moreover have "observed_marker f [0, 1, 0] = Some (JString ''o'')"
    using marker_broadcast_isolation[where e = example_tree and p = "[0, 1, 0]" and q = "[0, 1]"
        and lc = UnorderedListContext and dm = "''-''" and cfg = example_config
        and ic = "UnorderedListItemContext ''-''"] f d1 res
    by (auto simp: example_tree_def UnorderedListContext_def)
  ultimately show ?thesis using f by blast
qed

text \<open>
  \<^bold>\<open>C9\<close> (standalone item default). An item with no list container above it, rendered
  under the contexts' default values, shows the default marker.
\<close>

theorem standalone_item_default:
  assumes "subtree_at e p = Some (UnorderedListItemElem cs)"
    and "enclosing_list e p = None"
  shows "(\<forall>f. render defaultMarker cfg UnorderedListContext (UnorderedListItemContext defaultMarker) e = Inr f
            \<longrightarrow> observed_marker f p = Some (JString defaultMarker))
         \<and> (typed_theme cfg \<longrightarrow>
              (\<exists>f. render defaultMarker cfg UnorderedListContext (UnorderedListItemContext defaultMarker) e = Inr f))"
proof -
  have "observed_marker f p = Some (JString defaultMarker)"
    if f: "render defaultMarker cfg UnorderedListContext (UnorderedListItemContext defaultMarker) e = Inr f"
    for f
    using item_at_position[OF f assms(1)] assms(2)
    by (simp add: UnorderedListItemContext_def)
  moreover have "renderable (marker (UnorderedListItemContext defaultMarker))"
    by (simp add: UnorderedListItemContext_def)
  ultimately show ?thesis
    using render_returns[of cfg "UnorderedListItemContext defaultMarker" defaultMarker UnorderedListContext e]
    by blast
qed

theorem standalone_item_default_witness:
  "\<exists>f. render ''-'' example_config UnorderedListContext (UnorderedListItemContext ''-'')
          (Box [UnorderedListElem None [UnorderedListItemElem [Text ''x'']],
                UnorderedListItemElem [Text ''y'']]) = Inr f
       \<and> observed_marker f [1] = Some (JString ''-'')"
proof -
  have typed: "typed_theme example_config"
    by (simp add: example_config_def resolvedConfig_def js_optional_get_def)
  with standalone_item_default
    [where e = "Box [UnorderedListElem None [UnorderedListItemElem [Text ''x'']],
                     UnorderedListItemElem [Text ''y'']]"
       and p = "[1]" and defaultMarker = "''-''" and cfg = example_config]
  show ?thesis by auto
qed

end
